theory Spec2Isabelle
  imports Main "HOL-Library.Sublist"
begin

section \<open>Process-stop and file-append executors of chaosblade-exec-os\<close>

text \<open>
  A shallow embedding of \<^verbatim>\<open>exec/process_stop.go\<close>, which holds two executors:
  \<^verbatim>\<open>StopProcessExecutor\<close> and \<^verbatim>\<open>FileAppendActionExecutor\<close>. Each \<^verbatim>\<open>Exec\<close> checks
  its inputs, formats one argument string and hands it to the \<^verbatim>\<open>Run\<close> method of the
  channel bound to the executor.

  The Go source reads a global (\<^verbatim>\<open>util.Debug\<close>), asks the host two questions
  (\<^verbatim>\<open>util.IsExist\<close>, \<^verbatim>\<open>IsCommandAvailable\<close> of a fresh local channel) and performs one
  effect (\<^verbatim>\<open>channel.Run\<close>). The reads are the fields of the record \<open>env\<close>; the effect is
  explicit state passing over a record that holds the world the channel acts on and the
  log of the \<^verbatim>\<open>Run\<close> calls made so far. The \<^verbatim>\<open>model\<close> pointer and the context
  are taken to be non-nil: every request that the properties below speak of carries a
  flag mapping and a context. The \<^verbatim>\<open>int\<close> of Go is taken to be 64 bits wide.
\<close>

subsection \<open>Formatting and parsing of the Go standard library\<close>

text \<open>The double quote of the Go format strings \<^verbatim>\<open>"%s"\<close>.\<close>

definition quoted :: "string \<Rightarrow> string" where
  "quoted s = CHR 0x22 # s @ [CHR 0x22]"

text \<open>\<^verbatim>\<open>%t\<close> of \<^verbatim>\<open>fmt.Sprintf\<close>.\<close>

definition fmt_bool :: "bool \<Rightarrow> string" where
  "fmt_bool b = (if b then ''true'' else ''false'')"

text \<open>\<^verbatim>\<open>%d\<close> of \<^verbatim>\<open>fmt.Sprintf\<close>: decimal digits, most significant first, with a minus sign
  for a negative number.\<close>

definition digit_char :: "nat \<Rightarrow> char" where
  "digit_char d = ''0123456789'' ! d"

fun fmt_nat :: "nat \<Rightarrow> string" where
  "fmt_nat n = (if n < 10 then [digit_char n] else fmt_nat (n div 10) @ [digit_char (n mod 10)])"

declare fmt_nat.simps [simp del]

definition fmt_int :: "int \<Rightarrow> string" where
  "fmt_int i = (if i < 0 then CHR ''-'' # fmt_nat (nat (- i)) else fmt_nat (nat i))"

text \<open>
  \<^verbatim>\<open>strconv.Atoi\<close>: an optional sign, then one or more decimal digits and nothing else;
  the value has to fit the 64-bit \<^verbatim>\<open>int\<close>. Every other string is an error (\<open>None\<close>).
\<close>

definition digit_val :: "char \<Rightarrow> nat option" where
  "digit_val c = (let n = (of_char c :: nat) in if 48 \<le> n \<and> n \<le> 57 then Some (n - 48) else None)"

fun parse_digits :: "string \<Rightarrow> nat \<Rightarrow> nat option" where
  "parse_digits [] acc = Some acc"
| "parse_digits (c # cs) acc =
     (case digit_val c of None \<Rightarrow> None | Some d \<Rightarrow> parse_digits cs (acc * 10 + d))"

definition Atoi :: "string \<Rightarrow> int option" where
  "Atoi s =
     (case s of
        [] \<Rightarrow> None
      | c # cs \<Rightarrow>
          (let neg = (c = CHR ''-'');
               ds = (if c = CHR ''-'' \<or> c = CHR ''+'' then cs else s)
           in if ds = [] then None
              else (case parse_digits ds 0 of
                      None \<Rightarrow> None
                    | Some n \<Rightarrow>
                        (let v = (if neg then - int n else int n)
                         in if - (2 ^ 63) \<le> v \<and> v \<le> 2 ^ 63 - 1 then Some v else None))))"

text \<open>
  \<^verbatim>\<open>path.Join\<close>: the non-empty elements joined by a slash and cleaned (\<^verbatim>\<open>path.Clean\<close>):
  repeated slashes and \<^verbatim>\<open>.\<close> elements go, a \<^verbatim>\<open>..\<close> removes the element before it, a
  \<^verbatim>\<open>..\<close> at the root goes, the empty path is \<^verbatim>\<open>.\<close>.
\<close>

fun split_slash :: "string \<Rightarrow> string \<Rightarrow> string list" where
  "split_slash [] cur = [rev cur]"
| "split_slash (c # cs) cur =
     (if c = CHR ''/'' then rev cur # split_slash cs [] else split_slash cs (c # cur))"

fun clean_elems :: "bool \<Rightarrow> string list \<Rightarrow> string list \<Rightarrow> string list" where
  "clean_elems rooted [] stack = rev stack"
| "clean_elems rooted (e # es) stack =
     (if e = [] \<or> e = ''.'' then clean_elems rooted es stack
      else if e = ''..'' then
        (case stack of
           [] \<Rightarrow> if rooted then clean_elems rooted es [] else clean_elems rooted es [e]
         | t # ts \<Rightarrow> if t = ''..'' then clean_elems rooted es (e # stack)
                     else clean_elems rooted es ts)
      else clean_elems rooted es (e # stack))"

fun join_slash :: "string list \<Rightarrow> string" where
  "join_slash [] = []"
| "join_slash [e] = e"
| "join_slash (e # es) = e @ CHR ''/'' # join_slash es"

definition Clean :: "string \<Rightarrow> string" where
  "Clean p =
     (if p = [] then ''.''
      else (let rooted = (hd p = CHR ''/'');
                out = (if rooted then ''/'' else []) @ join_slash (clean_elems rooted (split_slash p []) [])
            in if out = [] then ''.'' else out))"

definition path_Join :: "string list \<Rightarrow> string" where
  "path_Join elems =
     (let es = filter (\<lambda>e. e \<noteq> []) elems
      in if es = [] then [] else Clean (join_slash es))"

subsection \<open>Responses, contexts, flag mappings, channels\<close>

text \<open>
  Modelled from the spec: the types \<^verbatim>\<open>spec.Response\<close>, \<^verbatim>\<open>spec.Code\<close>, \<^verbatim>\<open>spec.ExpModel\<close>,
  \<^verbatim>\<open>spec.Channel\<close> and the functions \<^verbatim>\<open>spec.ReturnFail\<close> and \<^verbatim>\<open>spec.IsDestroy\<close> belong to
  the package chaosblade-spec-go, of which the source has only the uses. A response is
  success or failure, a code and a message, and the result of a run that succeeded; the
  code classes that this file produces are named, every other code that a channel may
  answer with is \<open>OtherCode\<close>. \<^verbatim>\<open>ReturnFail\<close> makes the failure response of a code
  and a message. A context carries the marker of
  a destroy request or none. A flag mapping is a Go map from strings to strings: a key
  that is absent reads as the empty string.
\<close>

datatype code_type = OK | ServerError | IllegalParameters | CommandNotFound | OtherCode int

record response =
  Code :: code_type
  Success :: bool
  Err :: string
  Result :: string

definition ReturnFail :: "code_type \<Rightarrow> string \<Rightarrow> response" where
  "ReturnFail c msg = \<lparr>Code = c, Success = False, Err = msg, Result = []\<rparr>"

record ctx =
  destroy_marker :: "string option"

definition IsDestroy :: "ctx \<Rightarrow> string option" where
  "IsDestroy c = destroy_marker c"

type_synonym action_flags = "string \<rightharpoonup> string"

definition flag :: "action_flags \<Rightarrow> string \<Rightarrow> string" where
  "flag m k = (case m k of None \<Rightarrow> [] | Some v \<Rightarrow> v)"

text \<open>
  What \<^verbatim>\<open>Exec\<close> reads from its surroundings: the global \<^verbatim>\<open>util.Debug\<close>, whether a file
  exists (\<^verbatim>\<open>util.IsExist\<close>) and whether the host has a command
  (\<^verbatim>\<open>channel.NewLocalChannel().IsCommandAvailable\<close>).
\<close>

record env =
  Debug :: bool
  IsExist :: "string \<Rightarrow> bool"
  IsCommandAvailable :: "string \<Rightarrow> bool"

text \<open>
  A channel runs a program on a world \<open>'w\<close> and answers with a response. The executor's
  field \<^verbatim>\<open>channel\<close> is an interface value that may be nil: \<open>'w channel option\<close>.
\<close>

record 'w channel =
  Run :: "ctx \<Rightarrow> string \<Rightarrow> string \<Rightarrow> 'w \<Rightarrow> response \<times> 'w"
  GetScriptPath :: string

text \<open>The state that \<^verbatim>\<open>Exec\<close> passes on: the world, and the calls of \<^verbatim>\<open>Run\<close> in order,
  each with its context, executable path and argument string.\<close>

record 'w state =
  world :: 'w
  runs :: "(ctx \<times> string \<times> string) list"

definition invoke_Run ::
  "'w channel \<Rightarrow> ctx \<Rightarrow> string \<Rightarrow> string \<Rightarrow> 'w state \<Rightarrow> response \<times> 'w state" where
  "invoke_Run ch c p args s =
     (case Run ch c p args (world s) of
        (r, w') \<Rightarrow> (r, \<lparr>world = w', runs = runs s @ [(c, p, args)]\<rparr>))"

subsection \<open>The process-stop executor\<close>

definition StopProcessBin :: string where
  "StopProcessBin = ''chaos_stopprocess''"

definition stopProcess :: "'w channel \<Rightarrow> string \<Rightarrow> ctx \<Rightarrow> 'w state \<Rightarrow> response \<times> 'w state" where
  "stopProcess ch flags c s =
     invoke_Run ch c (path_Join [GetScriptPath ch, StopProcessBin]) (''--start '' @ flags) s"

definition recoverProcess :: "'w channel \<Rightarrow> string \<Rightarrow> ctx \<Rightarrow> 'w state \<Rightarrow> response \<times> 'w state" where
  "recoverProcess ch flags c s =
     invoke_Run ch c (path_Join [GetScriptPath ch, StopProcessBin]) (''--stop '' @ flags) s"

definition StopProcess_flags :: "env \<Rightarrow> action_flags \<Rightarrow> string" where
  "StopProcess_flags e m =
     (let process = flag m ''process'';
          processCmd = flag m ''process-cmd'';
          ignoreProcessNotFound = (flag m ''ignore-not-found'' = ''true'');
          flags0 = ''--debug='' @ fmt_bool (Debug e);
          flags1 = (if process \<noteq> [] then flags0 @ '' --process '' @ quoted process
                    else if processCmd \<noteq> [] then flags0 @ '' --process-cmd '' @ quoted processCmd
                    else flags0);
          flags2 = (if ignoreProcessNotFound
                    then flags1 @ '' --ignore-not-found='' @ fmt_bool ignoreProcessNotFound
                    else flags1)
      in flags2)"

definition StopProcess_Exec ::
  "env \<Rightarrow> 'w channel option \<Rightarrow> string \<Rightarrow> ctx \<Rightarrow> action_flags \<Rightarrow> 'w state \<Rightarrow> response \<times> 'w state" where
  "StopProcess_Exec e chan uid c m s =
     (case chan of
        None \<Rightarrow> (ReturnFail ServerError ''channel is nil'', s)
      | Some ch \<Rightarrow>
          if flag m ''process'' = [] \<and> flag m ''process-cmd'' = []
          then (ReturnFail IllegalParameters ''less process matcher'', s)
          else (case IsDestroy c of
                  Some _ \<Rightarrow> recoverProcess ch (StopProcess_flags e m) c s
                | None \<Rightarrow> stopProcess ch (StopProcess_flags e m) c s))"

subsection \<open>The file-append executor\<close>

definition AppendFileBin :: string where
  "AppendFileBin = ''chaos_appendfile''"

text \<open>The loop of \<^verbatim>\<open>checkAppendFileExpEnv\<close> over the commands it needs: the error of the
  first command that the host lacks, or no error.\<close>

fun check_commands :: "env \<Rightarrow> string list \<Rightarrow> string option" where
  "check_commands e [] = None"
| "check_commands e (command # commands) =
     (if \<not> IsCommandAvailable e command then Some (command @ '' command not found'')
      else check_commands e commands)"

definition checkAppendFileExpEnv :: "env \<Rightarrow> string option" where
  "checkAppendFileExpEnv e = check_commands e [''echo'', ''kill'']"

definition start ::
  "env \<Rightarrow> 'w channel \<Rightarrow> string \<Rightarrow> string \<Rightarrow> int \<Rightarrow> int \<Rightarrow> bool \<Rightarrow> bool \<Rightarrow> ctx \<Rightarrow> 'w state
     \<Rightarrow> response \<times> 'w state" where
  "start e ch filepath content count interval escape enableBase64 c s =
     (let flags0 = ''--start --filepath '' @ quoted filepath @ '' --content '' @ quoted content
                   @ '' --count '' @ fmt_int count @ '' --interval '' @ fmt_int interval
                   @ '' --debug='' @ fmt_bool (Debug e);
          flags1 = (if escape then flags0 @ '' --escape=true'' else flags0);
          flags2 = (if enableBase64 then flags1 @ '' --enable-base64=true'' else flags1)
      in invoke_Run ch c (path_Join [GetScriptPath ch, AppendFileBin]) flags2 s)"

definition stop :: "env \<Rightarrow> 'w channel \<Rightarrow> string \<Rightarrow> ctx \<Rightarrow> 'w state \<Rightarrow> response \<times> 'w state" where
  "stop e ch filepath c s =
     invoke_Run ch c (path_Join [GetScriptPath ch, AppendFileBin])
       (''--stop --filepath '' @ filepath @ '' --debug='' @ fmt_bool (Debug e)) s"

text \<open>The two parses of \<^verbatim>\<open>Exec\<close>: an empty flag keeps the default 1, a flag that does
  not parse or parses below 1 is an error.\<close>

definition parse_positive :: "string \<Rightarrow> int option" where
  "parse_positive str =
     (if str \<noteq> [] then
        (case Atoi str of None \<Rightarrow> None | Some n \<Rightarrow> if n < 1 then None else Some n)
      else Some 1)"

definition FileAppend_Exec ::
  "env \<Rightarrow> 'w channel option \<Rightarrow> string \<Rightarrow> ctx \<Rightarrow> action_flags \<Rightarrow> 'w state \<Rightarrow> response \<times> 'w state" where
  "FileAppend_Exec e chan uid c m s =
     (case checkAppendFileExpEnv e of
        Some err \<Rightarrow> (ReturnFail CommandNotFound err, s)
      | None \<Rightarrow>
     (case chan of
        None \<Rightarrow> (ReturnFail ServerError ''channel is nil'', s)
      | Some ch \<Rightarrow>
     (let filepath = flag m ''filepath'' in
      case IsDestroy c of
        Some _ \<Rightarrow> stop e ch filepath c s
      | None \<Rightarrow>
     (let content = flag m ''content'';
          countStr = flag m ''count'';
          intervalStr = flag m ''interval''
      in case parse_positive countStr of
           None \<Rightarrow> (ReturnFail IllegalParameters ''--count value must be a positive integer'', s)
         | Some count \<Rightarrow>
        (case parse_positive intervalStr of
           None \<Rightarrow> (ReturnFail IllegalParameters ''--interval value must be a positive integer'', s)
         | Some interval \<Rightarrow>
        (let escape = (flag m ''escape'' = ''true'');
             enableBase64 = (flag m ''enable-base64'' = ''true'')
         in if \<not> IsExist e filepath
            then (ReturnFail IllegalParameters (''the '' @ filepath @ '' file does not exist''), s)
            else start e ch filepath content count interval escape enableBase64 c s))))))"

subsection \<open>The words of the specification\<close>

text \<open>A flag value that the specification rejects for \<^verbatim>\<open>count\<close> and \<^verbatim>\<open>interval\<close>: it is
  not empty, and it is not a number or it is a number below 1.\<close>

definition not_positive_integer :: "string \<Rightarrow> bool" where
  "not_positive_integer str = (str \<noteq> [] \<and> (case Atoi str of None \<Rightarrow> True | Some n \<Rightarrow> n < 1))"

text \<open>The requests that pass every check of \<^verbatim>\<open>Exec\<close> before the channel is run: for
  process-stop a channel and a matcher; for file-append the two commands, a channel, and
  either a destroy marker or a count and an interval that parse and a file that exists.\<close>

definition process_stop_valid :: "'w channel option \<Rightarrow> action_flags \<Rightarrow> bool" where
  "process_stop_valid chan m =
     (chan \<noteq> None \<and> (flag m ''process'' \<noteq> [] \<or> flag m ''process-cmd'' \<noteq> []))"

definition file_append_valid :: "env \<Rightarrow> 'w channel option \<Rightarrow> ctx \<Rightarrow> action_flags \<Rightarrow> bool" where
  "file_append_valid e chan c m =
     (IsCommandAvailable e ''echo'' \<and> IsCommandAvailable e ''kill'' \<and> chan \<noteq> None
      \<and> (IsDestroy c \<noteq> None
          \<or> (\<not> not_positive_integer (flag m ''count'') \<and> \<not> not_positive_integer (flag m ''interval'')
              \<and> IsExist e (flag m ''filepath''))))"

text \<open>
  The serialization that the specification describes: the items of the argument string
  in their order, joined by single spaces. After the mode comes, for process-stop, the
  debug item, the one matcher (\<^verbatim>\<open>process\<close>, or \<^verbatim>\<open>process-cmd\<close> when there is no
  \<^verbatim>\<open>process\<close>) and the modifier \<^verbatim>\<open>ignore-not-found\<close>; for file-append the matcher
  \<^verbatim>\<open>filepath\<close>, the flags \<^verbatim>\<open>content\<close>, \<^verbatim>\<open>count\<close>, \<^verbatim>\<open>interval\<close>, the debug item and the
  modifiers \<^verbatim>\<open>escape\<close> and \<^verbatim>\<open>enable-base64\<close>.
\<close>

fun join_space :: "string list \<Rightarrow> string" where
  "join_space [] = []"
| "join_space [i] = i"
| "join_space (i # is) = i @ CHR '' '' # join_space is"

definition stop_process_matcher :: "string \<Rightarrow> string \<Rightarrow> string list" where
  "stop_process_matcher process processCmd =
     (if process \<noteq> [] then [''--process '' @ quoted process]
      else if processCmd \<noteq> [] then [''--process-cmd '' @ quoted processCmd] else [])"

definition stop_process_modifiers :: "string \<Rightarrow> string list" where
  "stop_process_modifiers ignoreNotFound =
     (if ignoreNotFound = ''true'' then [''--ignore-not-found=true''] else [])"

definition serialize_stop_process :: "string \<Rightarrow> bool \<Rightarrow> string \<Rightarrow> string \<Rightarrow> string \<Rightarrow> string" where
  "serialize_stop_process mode debug process processCmd ignoreNotFound =
     join_space ([mode, ''--debug='' @ fmt_bool debug]
                 @ stop_process_matcher process processCmd
                 @ stop_process_modifiers ignoreNotFound)"

definition file_append_modifiers :: "string \<Rightarrow> string \<Rightarrow> string list" where
  "file_append_modifiers escape enableBase64 =
     (if escape = ''true'' then [''--escape=true''] else [])
     @ (if enableBase64 = ''true'' then [''--enable-base64=true''] else [])"

definition serialize_file_append ::
  "bool \<Rightarrow> string \<Rightarrow> string \<Rightarrow> int \<Rightarrow> int \<Rightarrow> string \<Rightarrow> string \<Rightarrow> string" where
  "serialize_file_append debug filepath content count interval escape enableBase64 =
     join_space ([''--start'', ''--filepath '' @ quoted filepath]
                 @ [''--content '' @ quoted content, ''--count '' @ fmt_int count,
                    ''--interval '' @ fmt_int interval, ''--debug='' @ fmt_bool debug]
                 @ file_append_modifiers escape enableBase64)"

subsection \<open>Hosts, channels and requests of the examples\<close>

text \<open>A host with every command and the file \<^verbatim>\<open>/tmp/a.log\<close>, and the same host without
  \<^verbatim>\<open>kill\<close>. The channel of the examples answers with the command line it was given and
  counts its runs in the world.\<close>

definition host_ok :: env where
  "host_ok = \<lparr>Debug = False, IsExist = (\<lambda>p. p = ''/tmp/a.log''), IsCommandAvailable = (\<lambda>_. True)\<rparr>"

definition host_no_kill :: env where
  "host_no_kill = \<lparr>Debug = False, IsExist = (\<lambda>p. p = ''/tmp/a.log''),
                    IsCommandAvailable = (\<lambda>cmd. cmd \<noteq> ''kill'')\<rparr>"

definition echo_channel :: "nat channel" where
  "echo_channel =
     \<lparr>Run = (\<lambda>c p args w. (\<lparr>Code = OK, Success = True, Err = [], Result = p @ '' '' @ args\<rparr>, Suc w)),
      GetScriptPath = ''/opt/chaosblade/bin''\<rparr>"

definition create_ctx :: ctx where
  "create_ctx = \<lparr>destroy_marker = None\<rparr>"

definition destroy_ctx :: ctx where
  "destroy_ctx = \<lparr>destroy_marker = Some ''7c1f7afc281482c8''\<rparr>"

definition fresh :: "nat state" where
  "fresh = \<lparr>world = 0, runs = []\<rparr>"

section \<open>Properties\<close>

subsection \<open>The command check\<close>

lemma checkAppendFileExpEnv_None:
  "checkAppendFileExpEnv e = None \<longleftrightarrow> IsCommandAvailable e ''echo'' \<and> IsCommandAvailable e ''kill''"
  by (simp add: checkAppendFileExpEnv_def)

lemma parse_positive_None: "parse_positive str = None \<longleftrightarrow> not_positive_integer str"
  by (simp add: parse_positive_def not_positive_integer_def split: option.splits)

lemma parse_positive_Some: "parse_positive str = Some n \<Longrightarrow> 1 \<le> n"
  by (auto simp: parse_positive_def split: option.splits if_splits)

subsection \<open>What a run of the channel leaves behind\<close>

lemma invoke_Run_runs: "runs (snd (invoke_Run ch c p a s)) = runs s @ [(c, p, a)]"
  by (simp add: invoke_Run_def split: prod.splits)

lemma invoke_Run_fst: "fst (invoke_Run ch c p a s) = fst (Run ch c p a (world s))"
  by (simp add: invoke_Run_def split: prod.splits)

lemma invoke_Run_world: "world (snd (invoke_Run ch c p a s)) = snd (Run ch c p a (world s))"
  by (simp add: invoke_Run_def split: prod.splits)

subsection \<open>The branches of the two executors\<close>

lemma StopProcess_Exec_run:
  "\<not> (flag m ''process'' = [] \<and> flag m ''process-cmd'' = []) \<Longrightarrow>
   StopProcess_Exec e (Some ch) uid c m s =
     invoke_Run ch c (path_Join [GetScriptPath ch, StopProcessBin])
       ((if IsDestroy c = None then ''--start '' else ''--stop '') @ StopProcess_flags e m) s"
  by (auto simp: StopProcess_Exec_def stopProcess_def recoverProcess_def split: option.splits)

lemma FileAppend_Exec_stop:
  "IsCommandAvailable e ''echo'' \<Longrightarrow> IsCommandAvailable e ''kill'' \<Longrightarrow> IsDestroy c = Some d \<Longrightarrow>
   FileAppend_Exec e (Some ch) uid c m s = stop e ch (flag m ''filepath'') c s"
  by (simp add: FileAppend_Exec_def checkAppendFileExpEnv_def)

lemma FileAppend_Exec_start:
  "IsCommandAvailable e ''echo'' \<Longrightarrow> IsCommandAvailable e ''kill'' \<Longrightarrow> IsDestroy c = None \<Longrightarrow>
   parse_positive (flag m ''count'') = Some n \<Longrightarrow> parse_positive (flag m ''interval'') = Some i \<Longrightarrow>
   IsExist e (flag m ''filepath'') \<Longrightarrow>
   FileAppend_Exec e (Some ch) uid c m s =
     start e ch (flag m ''filepath'') (flag m ''content'') n i
       (flag m ''escape'' = ''true'') (flag m ''enable-base64'' = ''true'') c s"
  by (simp add: FileAppend_Exec_def checkAppendFileExpEnv_def)

lemma FileAppend_Exec_rejected:
  "IsDestroy c = None \<Longrightarrow>
   parse_positive (flag m ''count'') = None \<or> parse_positive (flag m ''interval'') = None
     \<or> \<not> IsExist e (flag m ''filepath'') \<Longrightarrow>
   snd (FileAppend_Exec e chan uid c m s) = s"
  by (auto simp: FileAppend_Exec_def Let_def split: option.splits)

subsection \<open>A nil channel\<close>

text \<open>
  Claim C1, as amended. With a nil channel the process-stop \<^verbatim>\<open>Exec\<close> answers ServerError
  whatever the flags, the context and the host are. The file-append \<^verbatim>\<open>Exec\<close> looks for
  the commands \<^verbatim>\<open>echo\<close> and \<^verbatim>\<open>kill\<close> before it looks at its channel: with a nil channel it
  answers ServerError on a host that has both, and CommandNotFound on a host that lacks
  one. In every case the channel is not run.
\<close>

theorem nil_channel_server_error:
  "StopProcess_Exec e None uid c m s = (ReturnFail ServerError ''channel is nil'', s)
   \<and> (IsCommandAvailable e ''echo'' \<and> IsCommandAvailable e ''kill''
        \<longrightarrow> FileAppend_Exec e None uid c m s = (ReturnFail ServerError ''channel is nil'', s))
   \<and> (\<not> (IsCommandAvailable e ''echo'' \<and> IsCommandAvailable e ''kill'')
        \<longrightarrow> Code (fst (FileAppend_Exec e None uid c m s)) = CommandNotFound
            \<and> snd (FileAppend_Exec e None uid c m s) = s)"
  by (auto simp: StopProcess_Exec_def FileAppend_Exec_def checkAppendFileExpEnv_def ReturnFail_def)

theorem nil_channel_server_error_witness:
  "IsCommandAvailable host_ok ''echo'' \<and> IsCommandAvailable host_ok ''kill''
   \<and> StopProcess_Exec host_ok None ''uid'' create_ctx [''process'' \<mapsto> ''nginx''] fresh
       = (ReturnFail ServerError ''channel is nil'', fresh)
   \<and> FileAppend_Exec host_ok None ''uid'' create_ctx [''filepath'' \<mapsto> ''/tmp/a.log''] fresh
       = (ReturnFail ServerError ''channel is nil'', fresh)
   \<and> \<not> (IsCommandAvailable host_no_kill ''echo'' \<and> IsCommandAvailable host_no_kill ''kill'')
   \<and> Code (fst (FileAppend_Exec host_no_kill None ''uid'' create_ctx [''filepath'' \<mapsto> ''/tmp/a.log''] fresh))
       = CommandNotFound"
  using nil_channel_server_error [of host_ok "''uid''" create_ctx "[''process'' \<mapsto> ''nginx'']" fresh]
    nil_channel_server_error [of host_ok "''uid''" create_ctx "[''filepath'' \<mapsto> ''/tmp/a.log'']" fresh]
    nil_channel_server_error [of host_no_kill "''uid''" create_ctx "[''filepath'' \<mapsto> ''/tmp/a.log'']" fresh]
  by (simp add: host_ok_def host_no_kill_def)

text \<open>The claim as it is written fails on a host without \<^verbatim>\<open>kill\<close>: the file-append
  \<^verbatim>\<open>Exec\<close> with a nil channel answers CommandNotFound there, not ServerError.\<close>

theorem nil_channel_file_append_counterexample:
  "FileAppend_Exec host_no_kill (None :: nat channel option) ''uid'' create_ctx
       [''filepath'' \<mapsto> ''/tmp/a.log'', ''content'' \<mapsto> ''hi''] fresh
     = (ReturnFail CommandNotFound ''kill command not found'', fresh)
   \<and> Code (fst (FileAppend_Exec host_no_kill (None :: nat channel option) ''uid'' create_ctx
       [''filepath'' \<mapsto> ''/tmp/a.log'', ''content'' \<mapsto> ''hi''] fresh)) \<noteq> ServerError"
  by (simp add: FileAppend_Exec_def checkAppendFileExpEnv_def host_no_kill_def ReturnFail_def)

subsection \<open>Process-stop without a matcher\<close>

text \<open>
  Claim C2. With a channel bound, when the flags \<^verbatim>\<open>process\<close> and \<^verbatim>\<open>process-cmd\<close> both read
  as the empty string, the process-stop \<^verbatim>\<open>Exec\<close> answers IllegalParameters and hands the
  state back as it was: the channel is not run.
\<close>

theorem process_stop_no_matcher:
  "flag m ''process'' = [] \<Longrightarrow> flag m ''process-cmd'' = [] \<Longrightarrow>
   StopProcess_Exec e (Some ch) uid c m s = (ReturnFail IllegalParameters ''less process matcher'', s)"
  by (simp add: StopProcess_Exec_def)

theorem process_stop_no_matcher_witness:
  "flag [''ignore-not-found'' \<mapsto> ''true''] ''process'' = []
   \<and> flag [''ignore-not-found'' \<mapsto> ''true''] ''process-cmd'' = []
   \<and> StopProcess_Exec host_ok (Some echo_channel) ''uid'' create_ctx [''ignore-not-found'' \<mapsto> ''true''] fresh
       = (ReturnFail IllegalParameters ''less process matcher'', fresh)
   \<and> runs (snd (StopProcess_Exec host_ok (Some echo_channel) ''uid'' create_ctx
               [''ignore-not-found'' \<mapsto> ''true''] fresh)) = []"
proof -
  have p: "flag [''ignore-not-found'' \<mapsto> ''true''] ''process'' = []"
    and q: "flag [''ignore-not-found'' \<mapsto> ''true''] ''process-cmd'' = []"
    by (simp_all add: flag_def)
  show ?thesis
    using p q process_stop_no_matcher [OF p q, of host_ok echo_channel "''uid''" create_ctx fresh]
    by (simp add: fresh_def)
qed

subsection \<open>File-append with a count or an interval that is no positive integer\<close>

text \<open>
  Claim C3. A file-append request without a destroy marker whose flag \<^verbatim>\<open>count\<close> or flag
  \<^verbatim>\<open>interval\<close> is not empty and either is no integer or is an integer below 1 never
  runs the channel: \<^verbatim>\<open>Exec\<close> hands the state back as it was. On the start path, that is
  when the request passed the command check and the channel check, the answer of \<^verbatim>\<open>Exec\<close>
  is IllegalParameters; the message names \<^verbatim>\<open>count\<close> when the count is at fault and
  \<^verbatim>\<open>interval\<close> otherwise.
\<close>

theorem file_append_bad_count_interval:
  assumes "IsDestroy c = None"
    and "not_positive_integer (flag m ''count'') \<or> not_positive_integer (flag m ''interval'')"
  shows "snd (FileAppend_Exec e chan uid c m s) = s
    \<and> (IsCommandAvailable e ''echo'' \<and> IsCommandAvailable e ''kill'' \<longrightarrow>
         FileAppend_Exec e (Some ch) uid c m s =
           (ReturnFail IllegalParameters
              (if not_positive_integer (flag m ''count'')
               then ''--count value must be a positive integer''
               else ''--interval value must be a positive integer''), s))"
proof (intro conjI impI)
  from assms(2) show "snd (FileAppend_Exec e chan uid c m s) = s"
    by (intro FileAppend_Exec_rejected [OF assms(1)]) (auto simp: parse_positive_None)
next
  assume host: "IsCommandAvailable e ''echo'' \<and> IsCommandAvailable e ''kill''"
  show "FileAppend_Exec e (Some ch) uid c m s =
           (ReturnFail IllegalParameters
              (if not_positive_integer (flag m ''count'')
               then ''--count value must be a positive integer''
               else ''--interval value must be a positive integer''), s)"
  proof (cases "parse_positive (flag m ''count'')")
    case None
    then have "not_positive_integer (flag m ''count'')"
      by (simp add: parse_positive_None)
    with None host assms(1) show ?thesis
      by (simp add: FileAppend_Exec_def checkAppendFileExpEnv_def)
  next
    case (Some n)
    then have ok: "\<not> not_positive_integer (flag m ''count'')"
      using parse_positive_None [of "flag m ''count''"] by simp
    with assms(2) have "parse_positive (flag m ''interval'') = None"
      by (simp add: parse_positive_None)
    with Some ok host assms(1) show ?thesis
      by (simp add: FileAppend_Exec_def checkAppendFileExpEnv_def)
  qed
qed

theorem file_append_bad_count_interval_witness:
  "IsDestroy create_ctx = None
   \<and> not_positive_integer (flag [''filepath'' \<mapsto> ''/tmp/a.log'', ''count'' \<mapsto> ''5'', ''interval'' \<mapsto> ''0''] ''interval'')
   \<and> IsCommandAvailable host_ok ''echo'' \<and> IsCommandAvailable host_ok ''kill''
   \<and> FileAppend_Exec host_ok (Some echo_channel) ''uid'' create_ctx
        [''filepath'' \<mapsto> ''/tmp/a.log'', ''count'' \<mapsto> ''5'', ''interval'' \<mapsto> ''0''] fresh
      = (ReturnFail IllegalParameters ''--interval value must be a positive integer'', fresh)
   \<and> snd (FileAppend_Exec host_no_kill (None :: nat channel option) ''uid'' create_ctx
        [''filepath'' \<mapsto> ''/tmp/a.log'', ''count'' \<mapsto> ''5'', ''interval'' \<mapsto> ''0''] fresh) = fresh"
proof -
  let ?m = "[''filepath'' \<mapsto> ''/tmp/a.log'', ''count'' \<mapsto> ''5'', ''interval'' \<mapsto> ''0'']"
  have a: "IsCommandAvailable host_ok ''echo''" and b: "IsCommandAvailable host_ok ''kill''"
    by (simp_all add: host_ok_def)
  have d: "IsDestroy create_ctx = None"
    by (simp add: IsDestroy_def create_ctx_def)
  have i: "not_positive_integer (flag ?m ''interval'')"
    by (simp add: not_positive_integer_def flag_def Atoi_def digit_val_def)
  have n: "\<not> not_positive_integer (flag ?m ''count'')"
    by (simp add: not_positive_integer_def flag_def Atoi_def digit_val_def)
  from i have bad: "not_positive_integer (flag ?m ''count'') \<or> not_positive_integer (flag ?m ''interval'')" ..
  from file_append_bad_count_interval [OF d bad, of host_ok "Some echo_channel" "''uid''" fresh echo_channel]
    a b n
  have r1: "FileAppend_Exec host_ok (Some echo_channel) ''uid'' create_ctx ?m fresh
      = (ReturnFail IllegalParameters ''--interval value must be a positive integer'', fresh)"
    by simp
  from file_append_bad_count_interval [OF d bad, of host_no_kill None "''uid''" fresh echo_channel]
  have r2: "snd (FileAppend_Exec host_no_kill (None :: nat channel option) ''uid'' create_ctx ?m fresh) = fresh"
    by blast
  from d i a b r1 r2 show ?thesis by blast
qed

subsection \<open>The argument string of a start request\<close>

lemma StopProcess_flags_eq:
  "\<not> (flag m ''process'' = [] \<and> flag m ''process-cmd'' = []) \<Longrightarrow>
   StopProcess_flags e m =
     ''--debug='' @ fmt_bool (Debug e)
     @ (if flag m ''process'' \<noteq> [] then '' --process '' @ quoted (flag m ''process'')
        else '' --process-cmd '' @ quoted (flag m ''process-cmd''))
     @ (if flag m ''ignore-not-found'' = ''true'' then '' --ignore-not-found=true'' else [])"
  by (auto simp: StopProcess_flags_def Let_def fmt_bool_def)

text \<open>
  Claim C4, as amended. For a start request that passes every check, the argument string
  handed to \<^verbatim>\<open>Run\<close> begins with \<^verbatim>\<open>--start\<close> and is made of these items, each once. For
  process-stop: the debug item; one matcher in double quotes, \<^verbatim>\<open>process\<close> when it is
  not empty and \<^verbatim>\<open>process-cmd\<close> only otherwise; \<^verbatim>\<open>--ignore-not-found=true\<close>, without
  quotes, only when that flag is \<^verbatim>\<open>true\<close>. For file-append: \<^verbatim>\<open>filepath\<close> and \<^verbatim>\<open>content\<close> in
  double quotes; \<^verbatim>\<open>count\<close> and \<^verbatim>\<open>interval\<close> as decimal numbers without quotes (the parsed
  value, 1 for a flag that is absent); the debug item; \<^verbatim>\<open>--escape=true\<close> and
  \<^verbatim>\<open>--enable-base64=true\<close>, without quotes, only when those flags are \<^verbatim>\<open>true\<close>.
\<close>

theorem start_arguments:
  "(IsDestroy c = None \<and> \<not> (flag m ''process'' = [] \<and> flag m ''process-cmd'' = []) \<longrightarrow>
      (\<exists>args. StopProcess_Exec e (Some ch) uid c m s
                 = invoke_Run ch c (path_Join [GetScriptPath ch, StopProcessBin]) args s
        \<and> prefix ''--start'' args
        \<and> args = ''--start --debug='' @ fmt_bool (Debug e)
             @ (if flag m ''process'' \<noteq> [] then '' --process '' @ quoted (flag m ''process'')
                else '' --process-cmd '' @ quoted (flag m ''process-cmd''))
             @ (if flag m ''ignore-not-found'' = ''true'' then '' --ignore-not-found=true'' else [])))
   \<and> (IsCommandAvailable e ''echo'' \<and> IsCommandAvailable e ''kill'' \<and> IsDestroy c = None
       \<and> parse_positive (flag m ''count'') = Some n \<and> parse_positive (flag m ''interval'') = Some i
       \<and> IsExist e (flag m ''filepath'') \<longrightarrow>
      (\<exists>args. FileAppend_Exec e (Some ch') uid c m s'
                 = invoke_Run ch' c (path_Join [GetScriptPath ch', AppendFileBin]) args s'
        \<and> prefix ''--start'' args
        \<and> args = ''--start --filepath '' @ quoted (flag m ''filepath'')
             @ '' --content '' @ quoted (flag m ''content'')
             @ '' --count '' @ fmt_int n @ '' --interval '' @ fmt_int i
             @ '' --debug='' @ fmt_bool (Debug e)
             @ (if flag m ''escape'' = ''true'' then '' --escape=true'' else [])
             @ (if flag m ''enable-base64'' = ''true'' then '' --enable-base64=true'' else [])))"
proof (intro conjI impI)
  assume a: "IsDestroy c = None \<and> \<not> (flag m ''process'' = [] \<and> flag m ''process-cmd'' = [])"
  then have "StopProcess_Exec e (Some ch) uid c m s
      = invoke_Run ch c (path_Join [GetScriptPath ch, StopProcessBin])
          (''--start '' @ StopProcess_flags e m) s"
    using StopProcess_Exec_run [of m e ch uid c s] by simp
  moreover have "prefix ''--start'' (''--start '' @ StopProcess_flags e m)"
    by (simp add: prefix_def)
  moreover have "''--start '' @ StopProcess_flags e m = ''--start --debug='' @ fmt_bool (Debug e)
             @ (if flag m ''process'' \<noteq> [] then '' --process '' @ quoted (flag m ''process'')
                else '' --process-cmd '' @ quoted (flag m ''process-cmd''))
             @ (if flag m ''ignore-not-found'' = ''true'' then '' --ignore-not-found=true'' else [])"
    using a StopProcess_flags_eq [of m e] by simp
  ultimately show "\<exists>args. StopProcess_Exec e (Some ch) uid c m s
                 = invoke_Run ch c (path_Join [GetScriptPath ch, StopProcessBin]) args s
        \<and> prefix ''--start'' args
        \<and> args = ''--start --debug='' @ fmt_bool (Debug e)
             @ (if flag m ''process'' \<noteq> [] then '' --process '' @ quoted (flag m ''process'')
                else '' --process-cmd '' @ quoted (flag m ''process-cmd''))
             @ (if flag m ''ignore-not-found'' = ''true'' then '' --ignore-not-found=true'' else [])"
    by simp
next
  assume b: "IsCommandAvailable e ''echo'' \<and> IsCommandAvailable e ''kill'' \<and> IsDestroy c = None
       \<and> parse_positive (flag m ''count'') = Some n \<and> parse_positive (flag m ''interval'') = Some i
       \<and> IsExist e (flag m ''filepath'')"
  then have "FileAppend_Exec e (Some ch') uid c m s' =
     start e ch' (flag m ''filepath'') (flag m ''content'') n i
       (flag m ''escape'' = ''true'') (flag m ''enable-base64'' = ''true'') c s'"
    using FileAppend_Exec_start [of e c m n i ch' uid s'] by simp
  then show "\<exists>args. FileAppend_Exec e (Some ch') uid c m s'
                 = invoke_Run ch' c (path_Join [GetScriptPath ch', AppendFileBin]) args s'
        \<and> prefix ''--start'' args
        \<and> args = ''--start --filepath '' @ quoted (flag m ''filepath'')
             @ '' --content '' @ quoted (flag m ''content'')
             @ '' --count '' @ fmt_int n @ '' --interval '' @ fmt_int i
             @ '' --debug='' @ fmt_bool (Debug e)
             @ (if flag m ''escape'' = ''true'' then '' --escape=true'' else [])
             @ (if flag m ''enable-base64'' = ''true'' then '' --enable-base64=true'' else [])"
    by (simp add: start_def Let_def prefix_def)
qed

theorem start_arguments_witness:
  "IsCommandAvailable host_ok ''echo'' \<and> IsCommandAvailable host_ok ''kill''
   \<and> IsDestroy create_ctx = None
   \<and> parse_positive (flag [''filepath'' \<mapsto> ''/tmp/a.log'', ''content'' \<mapsto> ''hi'', ''count'' \<mapsto> ''+07''] ''count'') = Some 7
   \<and> parse_positive (flag [''filepath'' \<mapsto> ''/tmp/a.log'', ''content'' \<mapsto> ''hi'', ''count'' \<mapsto> ''+07''] ''interval'') = Some 1
   \<and> IsExist host_ok (flag [''filepath'' \<mapsto> ''/tmp/a.log'', ''content'' \<mapsto> ''hi'', ''count'' \<mapsto> ''+07''] ''filepath'')
   \<and> FileAppend_Exec host_ok (Some echo_channel) ''uid'' create_ctx
        [''filepath'' \<mapsto> ''/tmp/a.log'', ''content'' \<mapsto> ''hi'', ''count'' \<mapsto> ''+07''] fresh
      = invoke_Run echo_channel create_ctx ''/opt/chaosblade/bin/chaos_appendfile''
          (''--start --filepath '' @ quoted ''/tmp/a.log'' @ '' --content '' @ quoted ''hi''
           @ '' --count 7 --interval 1 --debug=false'') fresh
   \<and> \<not> (flag [''process-cmd'' \<mapsto> ''java'', ''ignore-not-found'' \<mapsto> ''true''] ''process'' = []
         \<and> flag [''process-cmd'' \<mapsto> ''java'', ''ignore-not-found'' \<mapsto> ''true''] ''process-cmd'' = [])
   \<and> StopProcess_Exec host_ok (Some echo_channel) ''uid'' create_ctx
        [''process-cmd'' \<mapsto> ''java'', ''ignore-not-found'' \<mapsto> ''true''] fresh
      = invoke_Run echo_channel create_ctx ''/opt/chaosblade/bin/chaos_stopprocess''
          (''--start --debug=false --process-cmd '' @ quoted ''java'' @ '' --ignore-not-found=true'') fresh"
proof -
  let ?m = "[''filepath'' \<mapsto> ''/tmp/a.log'', ''content'' \<mapsto> ''hi'', ''count'' \<mapsto> ''+07'']"
  let ?k = "[''process-cmd'' \<mapsto> ''java'', ''ignore-not-found'' \<mapsto> ''true'']"
  have a: "IsCommandAvailable host_ok ''echo''" and b: "IsCommandAvailable host_ok ''kill''"
    by (simp_all add: host_ok_def)
  have d: "IsDestroy create_ctx = None"
    by (simp add: IsDestroy_def create_ctx_def)
  have n: "parse_positive (flag ?m ''count'') = Some 7"
    by (simp add: parse_positive_def flag_def Atoi_def digit_val_def)
  have i: "parse_positive (flag ?m ''interval'') = Some 1"
    by (simp add: parse_positive_def flag_def)
  have x: "IsExist host_ok (flag ?m ''filepath'')"
    by (simp add: host_ok_def flag_def)
  have f: "flag ?m ''filepath'' = ''/tmp/a.log''" "flag ?m ''content'' = ''hi''"
    "flag ?m ''escape'' = []" "flag ?m ''enable-base64'' = []"
    by (simp_all add: flag_def)
  have g: "flag ?k ''process'' = []" "flag ?k ''process-cmd'' = ''java''"
    "flag ?k ''ignore-not-found'' = ''true''"
    by (simp_all add: flag_def)
  have matcher: "\<not> (flag ?k ''process'' = [] \<and> flag ?k ''process-cmd'' = [])"
    by (simp add: g)
  have v: "fmt_int 7 = ''7''" "fmt_int 1 = ''1''" "fmt_bool (Debug host_ok) = ''false''"
    by (simp_all add: fmt_int_def fmt_nat.simps digit_char_def fmt_bool_def host_ok_def)
  have p: "path_Join [GetScriptPath echo_channel, AppendFileBin] = ''/opt/chaosblade/bin/chaos_appendfile''"
    and q: "path_Join [GetScriptPath echo_channel, StopProcessBin] = ''/opt/chaosblade/bin/chaos_stopprocess''"
    by (simp_all add: echo_channel_def path_Join_def Clean_def AppendFileBin_def StopProcessBin_def)
  from start_arguments [of create_ctx ?m host_ok _ _ _ 7 1 echo_channel fresh] a b d n i x
  have "\<exists>args. FileAppend_Exec host_ok (Some echo_channel) ''uid'' create_ctx ?m fresh
                 = invoke_Run echo_channel create_ctx (path_Join [GetScriptPath echo_channel, AppendFileBin]) args fresh
        \<and> prefix ''--start'' args
        \<and> args = ''--start --filepath '' @ quoted (flag ?m ''filepath'')
             @ '' --content '' @ quoted (flag ?m ''content'')
             @ '' --count '' @ fmt_int 7 @ '' --interval '' @ fmt_int 1
             @ '' --debug='' @ fmt_bool (Debug host_ok)
             @ (if flag ?m ''escape'' = ''true'' then '' --escape=true'' else [])
             @ (if flag ?m ''enable-base64'' = ''true'' then '' --enable-base64=true'' else [])"
    by blast
  then have r1: "FileAppend_Exec host_ok (Some echo_channel) ''uid'' create_ctx ?m fresh
      = invoke_Run echo_channel create_ctx ''/opt/chaosblade/bin/chaos_appendfile''
          (''--start --filepath '' @ quoted ''/tmp/a.log'' @ '' --content '' @ quoted ''hi''
           @ '' --count 7 --interval 1 --debug=false'') fresh"
    unfolding p f v by auto
  from start_arguments [of create_ctx ?k host_ok echo_channel "''uid''" fresh] d matcher
  have "\<exists>args. StopProcess_Exec host_ok (Some echo_channel) ''uid'' create_ctx ?k fresh
                 = invoke_Run echo_channel create_ctx (path_Join [GetScriptPath echo_channel, StopProcessBin]) args fresh
        \<and> prefix ''--start'' args
        \<and> args = ''--start --debug='' @ fmt_bool (Debug host_ok)
             @ (if flag ?k ''process'' \<noteq> [] then '' --process '' @ quoted (flag ?k ''process'')
                else '' --process-cmd '' @ quoted (flag ?k ''process-cmd''))
             @ (if flag ?k ''ignore-not-found'' = ''true'' then '' --ignore-not-found=true'' else [])"
    by blast
  then have r2: "StopProcess_Exec host_ok (Some echo_channel) ''uid'' create_ctx ?k fresh
      = invoke_Run echo_channel create_ctx ''/opt/chaosblade/bin/chaos_stopprocess''
          (''--start --debug=false --process-cmd '' @ quoted ''java'' @ '' --ignore-not-found=true'') fresh"
    unfolding q g v by auto
  from a b d n i x r1 matcher r2 show ?thesis by blast
qed

text \<open>The claim as it is written fails for a process-stop request that carries both
  matchers: \<^verbatim>\<open>process-cmd\<close> is supplied and is not in the argument string.\<close>

theorem start_arguments_counterexample:
  "StopProcess_Exec host_ok (Some echo_channel) ''uid'' create_ctx
      [''process'' \<mapsto> ''nginx'', ''process-cmd'' \<mapsto> ''java''] fresh
    = invoke_Run echo_channel create_ctx ''/opt/chaosblade/bin/chaos_stopprocess''
        (''--start --debug=false --process '' @ quoted ''nginx'') fresh
   \<and> \<not> sublist ''--process-cmd'' (''--start --debug=false --process '' @ quoted ''nginx'')"
proof
  show "StopProcess_Exec host_ok (Some echo_channel) ''uid'' create_ctx
      [''process'' \<mapsto> ''nginx'', ''process-cmd'' \<mapsto> ''java''] fresh
    = invoke_Run echo_channel create_ctx ''/opt/chaosblade/bin/chaos_stopprocess''
        (''--start --debug=false --process '' @ quoted ''nginx'') fresh"
    by (simp add: StopProcess_Exec_def flag_def IsDestroy_def create_ctx_def stopProcess_def
        StopProcess_flags_def fmt_bool_def host_ok_def echo_channel_def
        path_Join_def Clean_def StopProcessBin_def)
  show "\<not> sublist ''--process-cmd'' (''--start --debug=false --process '' @ quoted ''nginx'')"
    unfolding quoted_def by code_simp
qed

subsection \<open>The argument string of a destroy request for file-append\<close>

text \<open>
  Claim C5. For a file-append request with a destroy marker, a channel bound and both
  commands on the host, the argument string handed to \<^verbatim>\<open>Run\<close> begins with \<^verbatim>\<open>--stop\<close>,
  contains the \<^verbatim>\<open>filepath\<close> flag with its value, and is made of the mode, the file path
  and the debug item only: neither \<^verbatim>\<open>content\<close> nor \<^verbatim>\<open>count\<close> nor \<^verbatim>\<open>interval\<close> goes into it,
  and every flag mapping with the same file path gives the same call of \<^verbatim>\<open>Run\<close>.
\<close>

theorem file_append_destroy_arguments:
  assumes "IsCommandAvailable e ''echo''" and "IsCommandAvailable e ''kill''"
    and "IsDestroy c = Some d"
  shows "\<exists>args. FileAppend_Exec e (Some ch) uid c m s
                  = invoke_Run ch c (path_Join [GetScriptPath ch, AppendFileBin]) args s
          \<and> prefix ''--stop'' args
          \<and> sublist (''--filepath '' @ flag m ''filepath'') args
          \<and> args = ''--stop --filepath '' @ flag m ''filepath'' @ '' --debug='' @ fmt_bool (Debug e)
          \<and> (\<forall>m'. flag m' ''filepath'' = flag m ''filepath''
                \<longrightarrow> FileAppend_Exec e (Some ch) uid c m' s
                    = invoke_Run ch c (path_Join [GetScriptPath ch, AppendFileBin]) args s)"
proof -
  let ?args = "''--stop --filepath '' @ flag m ''filepath'' @ '' --debug='' @ fmt_bool (Debug e)"
  have same: "FileAppend_Exec e (Some ch) uid c m' s
          = invoke_Run ch c (path_Join [GetScriptPath ch, AppendFileBin]) ?args s"
    if "flag m' ''filepath'' = flag m ''filepath''" for m'
    using that FileAppend_Exec_stop [OF assms, of ch uid m' s] by (simp add: stop_def)
  have "FileAppend_Exec e (Some ch) uid c m s
          = invoke_Run ch c (path_Join [GetScriptPath ch, AppendFileBin]) ?args s"
    using FileAppend_Exec_stop [OF assms] by (simp add: stop_def)
  moreover have "prefix ''--stop'' ?args"
    by (simp add: prefix_def)
  moreover have "sublist (''--filepath '' @ flag m ''filepath'') ?args"
  proof -
    have "?args = ''--stop '' @ (''--filepath '' @ flag m ''filepath'') @ ('' --debug='' @ fmt_bool (Debug e))"
      by simp
    then show ?thesis
      unfolding sublist_def by blast
  qed
  ultimately show ?thesis using same by blast
qed

theorem file_append_destroy_arguments_witness:
  "IsCommandAvailable host_ok ''echo'' \<and> IsCommandAvailable host_ok ''kill''
   \<and> IsDestroy destroy_ctx = Some ''7c1f7afc281482c8''
   \<and> FileAppend_Exec host_ok (Some echo_channel) ''uid'' destroy_ctx
        [''filepath'' \<mapsto> ''/tmp/a.log'', ''content'' \<mapsto> ''hi''] fresh
      = invoke_Run echo_channel destroy_ctx ''/opt/chaosblade/bin/chaos_appendfile''
          ''--stop --filepath /tmp/a.log --debug=false'' fresh"
proof -
  have a: "IsCommandAvailable host_ok ''echo''" and b: "IsCommandAvailable host_ok ''kill''"
    by (simp_all add: host_ok_def)
  have d: "IsDestroy destroy_ctx = Some ''7c1f7afc281482c8''"
    by (simp add: IsDestroy_def destroy_ctx_def)
  have p: "path_Join [GetScriptPath echo_channel, AppendFileBin] = ''/opt/chaosblade/bin/chaos_appendfile''"
    by (simp add: echo_channel_def path_Join_def Clean_def AppendFileBin_def)
  have f: "flag [''filepath'' \<mapsto> ''/tmp/a.log'', ''content'' \<mapsto> ''hi''] ''filepath'' = ''/tmp/a.log''"
    by (simp add: flag_def)
  have g: "fmt_bool (Debug host_ok) = ''false''"
    by (simp add: fmt_bool_def host_ok_def)
  from file_append_destroy_arguments [OF a b d, of echo_channel "''uid''"
      "[''filepath'' \<mapsto> ''/tmp/a.log'', ''content'' \<mapsto> ''hi'']" fresh]
  show ?thesis
    using a b d by (auto simp add: p f g)
qed

subsection \<open>The process-stop example\<close>

text \<open>
  Claim C6. Process-stop with a channel bound, the flag \<^verbatim>\<open>process\<close> set to
  \<^verbatim>\<open>SimpleHTTPServer\<close>, no \<^verbatim>\<open>process-cmd\<close> and no \<^verbatim>\<open>ignore-not-found\<close>, no destroy marker
  and the debug flag off: \<^verbatim>\<open>Run\<close> gets the script path joined with \<^verbatim>\<open>chaos_stopprocess\<close>
  and the argument string \<^verbatim>\<open>--start --debug=false --process "SimpleHTTPServer"\<close>.
\<close>

theorem process_stop_example:
  assumes "m ''process'' = Some ''SimpleHTTPServer''"
    and "m ''process-cmd'' = None" and "m ''ignore-not-found'' = None"
    and "IsDestroy c = None" and "Debug e = False"
  shows "StopProcess_Exec e (Some ch) uid c m s
           = invoke_Run ch c (path_Join [GetScriptPath ch, ''chaos_stopprocess''])
               (''--start --debug=false --process '' @ [CHR 0x22] @ ''SimpleHTTPServer'' @ [CHR 0x22]) s"
  using assms
  by (simp add: StopProcess_Exec_def flag_def stopProcess_def StopProcess_flags_def
      fmt_bool_def quoted_def StopProcessBin_def)

theorem process_stop_example_witness:
  "[''process'' \<mapsto> ''SimpleHTTPServer''] ''process'' = Some ''SimpleHTTPServer''
   \<and> [''process'' \<mapsto> ''SimpleHTTPServer''] ''process-cmd'' = None
   \<and> [''process'' \<mapsto> ''SimpleHTTPServer''] ''ignore-not-found'' = None
   \<and> IsDestroy create_ctx = None \<and> Debug host_ok = False
   \<and> StopProcess_Exec host_ok (Some echo_channel) ''uid'' create_ctx
        [''process'' \<mapsto> ''SimpleHTTPServer''] fresh
      = (\<lparr>Code = OK, Success = True, Err = [],
           Result = ''/opt/chaosblade/bin/chaos_stopprocess --start --debug=false --process ''
                    @ [CHR 0x22] @ ''SimpleHTTPServer'' @ [CHR 0x22]\<rparr>,
         \<lparr>world = 1,
           runs = [(create_ctx, ''/opt/chaosblade/bin/chaos_stopprocess'',
                    ''--start --debug=false --process '' @ [CHR 0x22] @ ''SimpleHTTPServer'' @ [CHR 0x22])]\<rparr>)"
proof -
  let ?m = "[''process'' \<mapsto> ''SimpleHTTPServer'']"
  have a: "?m ''process'' = Some ''SimpleHTTPServer''" and b: "?m ''process-cmd'' = None"
    and c: "?m ''ignore-not-found'' = None"
    by simp_all
  have d: "IsDestroy create_ctx = None"
    by (simp add: IsDestroy_def create_ctx_def)
  have e: "Debug host_ok = False"
    by (simp add: host_ok_def)
  have h: "StopProcess_Exec host_ok (Some echo_channel) ''uid'' create_ctx ?m fresh
      = invoke_Run echo_channel create_ctx (path_Join [GetScriptPath echo_channel, ''chaos_stopprocess''])
          (''--start --debug=false --process '' @ [CHR 0x22] @ ''SimpleHTTPServer'' @ [CHR 0x22]) fresh"
    by (rule process_stop_example [OF a b c d e])
  have i: "invoke_Run echo_channel create_ctx (path_Join [GetScriptPath echo_channel, ''chaos_stopprocess''])
          (''--start --debug=false --process '' @ [CHR 0x22] @ ''SimpleHTTPServer'' @ [CHR 0x22]) fresh
      = (\<lparr>Code = OK, Success = True, Err = [],
           Result = ''/opt/chaosblade/bin/chaos_stopprocess --start --debug=false --process ''
                    @ [CHR 0x22] @ ''SimpleHTTPServer'' @ [CHR 0x22]\<rparr>,
         \<lparr>world = 1,
           runs = [(create_ctx, ''/opt/chaosblade/bin/chaos_stopprocess'',
                    ''--start --debug=false --process '' @ [CHR 0x22] @ ''SimpleHTTPServer'' @ [CHR 0x22])]\<rparr>)"
    by (simp add: invoke_Run_def echo_channel_def fresh_def path_Join_def Clean_def)
  from a b c d e show ?thesis
    unfolding h i by simp
qed

subsection \<open>The response of the channel is the response of Exec\<close>

lemma invoke_Run_eq:
  "invoke_Run ch c p a s =
     (fst (Run ch c p a (world s)),
      \<lparr>world = snd (Run ch c p a (world s)), runs = runs s @ [(c, p, a)]\<rparr>)"
  by (simp add: invoke_Run_def split: prod.splits)

lemma parse_positive_valid:
  "\<not> not_positive_integer str \<Longrightarrow> \<exists>n. parse_positive str = Some n"
  using parse_positive_None [of str] by (cases "parse_positive str") simp_all

text \<open>
  Claim C7. When a request passes every check of \<^verbatim>\<open>Exec\<close>, the channel is run exactly
  once, on the world that \<^verbatim>\<open>Exec\<close> was given, and \<^verbatim>\<open>Exec\<close> returns the response of that
  run with every field as the channel gave it, together with the world that the run
  left. This holds for process-stop and for file-append, for start and for destroy.
\<close>

theorem exec_returns_run_response:
  "(process_stop_valid chan m \<longrightarrow>
      (\<exists>ch p a. chan = Some ch
         \<and> StopProcess_Exec e chan uid c m s
             = (fst (Run ch c p a (world s)),
                \<lparr>world = snd (Run ch c p a (world s)), runs = runs s @ [(c, p, a)]\<rparr>)))
   \<and> (file_append_valid e chan c m \<longrightarrow>
      (\<exists>ch p a. chan = Some ch
         \<and> FileAppend_Exec e chan uid c m s
             = (fst (Run ch c p a (world s)),
                \<lparr>world = snd (Run ch c p a (world s)), runs = runs s @ [(c, p, a)]\<rparr>)))"
proof (intro conjI impI)
  assume "process_stop_valid chan m"
  then obtain ch where ch: "chan = Some ch"
    and matcher: "\<not> (flag m ''process'' = [] \<and> flag m ''process-cmd'' = [])"
    by (auto simp: process_stop_valid_def)
  show "\<exists>ch p a. chan = Some ch
         \<and> StopProcess_Exec e chan uid c m s
             = (fst (Run ch c p a (world s)),
                \<lparr>world = snd (Run ch c p a (world s)), runs = runs s @ [(c, p, a)]\<rparr>)"
    unfolding ch StopProcess_Exec_run [OF matcher] invoke_Run_eq by blast
next
  assume v: "file_append_valid e chan c m"
  then obtain ch where ch: "chan = Some ch"
    and echo: "IsCommandAvailable e ''echo''" and kill: "IsCommandAvailable e ''kill''"
    by (auto simp: file_append_valid_def)
  show "\<exists>ch p a. chan = Some ch
         \<and> FileAppend_Exec e chan uid c m s
             = (fst (Run ch c p a (world s)),
                \<lparr>world = snd (Run ch c p a (world s)), runs = runs s @ [(c, p, a)]\<rparr>)"
  proof (cases "IsDestroy c")
    case (Some d)
    show ?thesis
      unfolding ch FileAppend_Exec_stop [OF echo kill Some] stop_def invoke_Run_eq by blast
  next
    case None
    with v have "\<not> not_positive_integer (flag m ''count'')"
      and "\<not> not_positive_integer (flag m ''interval'')"
      and x: "IsExist e (flag m ''filepath'')"
      by (simp_all add: file_append_valid_def)
    then obtain n i where n: "parse_positive (flag m ''count'') = Some n"
      and i: "parse_positive (flag m ''interval'') = Some i"
      using parse_positive_valid by blast
    show ?thesis
      unfolding ch FileAppend_Exec_start [OF echo kill None n i x] start_def Let_def invoke_Run_eq
      by blast
  qed
qed

theorem exec_returns_run_response_witness:
  "process_stop_valid (Some echo_channel) [''process-cmd'' \<mapsto> ''java'']
   \<and> file_append_valid host_ok (Some echo_channel) create_ctx [''filepath'' \<mapsto> ''/tmp/a.log'', ''content'' \<mapsto> ''hi'']
   \<and> (\<exists>p a. StopProcess_Exec host_ok (Some echo_channel) ''uid'' destroy_ctx [''process-cmd'' \<mapsto> ''java''] fresh
             = (fst (Run echo_channel destroy_ctx p a 0), \<lparr>world = 1, runs = [(destroy_ctx, p, a)]\<rparr>))
   \<and> (\<exists>p a. FileAppend_Exec host_ok (Some echo_channel) ''uid'' create_ctx
               [''filepath'' \<mapsto> ''/tmp/a.log'', ''content'' \<mapsto> ''hi''] fresh
             = (fst (Run echo_channel create_ctx p a 0), \<lparr>world = 1, runs = [(create_ctx, p, a)]\<rparr>))"
proof -
  let ?m1 = "[''process-cmd'' \<mapsto> ''java'']"
  let ?m2 = "[''filepath'' \<mapsto> ''/tmp/a.log'', ''content'' \<mapsto> ''hi'']"
  have v1: "process_stop_valid (Some echo_channel) ?m1"
    by (simp add: process_stop_valid_def flag_def)
  have v2: "file_append_valid host_ok (Some echo_channel) create_ctx ?m2"
    by (simp add: file_append_valid_def host_ok_def flag_def not_positive_integer_def)
  have w: "snd (Run echo_channel c p a 0) = 1" "world fresh = 0" "runs fresh = []" for c p a
    by (simp_all add: echo_channel_def fresh_def)
  from exec_returns_run_response [of "Some echo_channel" ?m1 host_ok "''uid''" destroy_ctx fresh] v1
  have r1: "\<exists>p a. StopProcess_Exec host_ok (Some echo_channel) ''uid'' destroy_ctx ?m1 fresh
             = (fst (Run echo_channel destroy_ctx p a 0), \<lparr>world = 1, runs = [(destroy_ctx, p, a)]\<rparr>)"
    by (simp add: w)
  from exec_returns_run_response [of "Some echo_channel" ?m2 host_ok "''uid''" create_ctx fresh] v2
  have r2: "\<exists>p a. FileAppend_Exec host_ok (Some echo_channel) ''uid'' create_ctx ?m2 fresh
             = (fst (Run echo_channel create_ctx p a 0), \<lparr>world = 1, runs = [(create_ctx, p, a)]\<rparr>)"
    by (simp add: w)
  from v1 v2 r1 r2 show ?thesis by blast
qed

subsection \<open>The order of the flags in the argument string\<close>

lemma StopProcess_flags_serialize:
  "\<not> (flag m ''process'' = [] \<and> flag m ''process-cmd'' = []) \<Longrightarrow>
   mode \<noteq> [] \<Longrightarrow>
   mode @ '' '' @ StopProcess_flags e m =
     serialize_stop_process mode (Debug e) (flag m ''process'') (flag m ''process-cmd'')
       (flag m ''ignore-not-found'')"
  by (cases mode)
    (auto simp: StopProcess_flags_def serialize_stop_process_def stop_process_matcher_def
      stop_process_modifiers_def fmt_bool_def Let_def)

lemma start_serialize:
  "start e ch filepath content n i (escape = ''true'') (enableBase64 = ''true'') c s =
     invoke_Run ch c (path_Join [GetScriptPath ch, AppendFileBin])
       (serialize_file_append (Debug e) filepath content n i escape enableBase64) s"
  by (simp add: start_def serialize_file_append_def file_append_modifiers_def Let_def)

text \<open>
  Claim C8. The argument string is a function of the flag values that \<^verbatim>\<open>Exec\<close> reads, of
  the debug flag and of the mode alone: the world, the rest of the context and the rest
  of the host do not enter it. It is the items of \<open>serialize_stop_process\<close> or of
  \<open>serialize_file_append\<close> joined by spaces, and there the flags of the mapping stand in
  a fixed order with the matcher first (\<^verbatim>\<open>process\<close> or \<^verbatim>\<open>process-cmd\<close>; \<^verbatim>\<open>filepath\<close>) and
  the optional modifiers last (\<^verbatim>\<open>ignore-not-found\<close>; \<^verbatim>\<open>escape\<close>, \<^verbatim>\<open>enable-base64\<close>). The
  mode and the debug item are no flags of the mapping: the mode leads the string, the
  debug item follows the mode for process-stop and the interval for file-append.
\<close>

theorem flags_serialized_in_order:
  "(\<not> (flag m ''process'' = [] \<and> flag m ''process-cmd'' = []) \<longrightarrow>
      runs (snd (StopProcess_Exec e (Some ch) uid c m s)) =
        runs s @ [(c, path_Join [GetScriptPath ch, StopProcessBin],
                   serialize_stop_process (if IsDestroy c = None then ''--start'' else ''--stop'')
                     (Debug e) (flag m ''process'') (flag m ''process-cmd'')
                     (flag m ''ignore-not-found''))])
   \<and> (IsCommandAvailable e ''echo'' \<and> IsCommandAvailable e ''kill'' \<and> IsDestroy c = None
       \<and> parse_positive (flag m ''count'') = Some n \<and> parse_positive (flag m ''interval'') = Some i
       \<and> IsExist e (flag m ''filepath'') \<longrightarrow>
      runs (snd (FileAppend_Exec e (Some ch) uid c m s)) =
        runs s @ [(c, path_Join [GetScriptPath ch, AppendFileBin],
                   serialize_file_append (Debug e) (flag m ''filepath'') (flag m ''content'') n i
                     (flag m ''escape'') (flag m ''enable-base64''))])"
proof (intro conjI impI)
  assume matcher: "\<not> (flag m ''process'' = [] \<and> flag m ''process-cmd'' = [])"
  have "(if IsDestroy c = None then ''--start '' else ''--stop '') @ StopProcess_flags e m
        = serialize_stop_process (if IsDestroy c = None then ''--start'' else ''--stop'')
            (Debug e) (flag m ''process'') (flag m ''process-cmd'') (flag m ''ignore-not-found'')"
    using StopProcess_flags_serialize [OF matcher, of "''--start''" e]
      StopProcess_flags_serialize [OF matcher, of "''--stop''" e]
    by simp
  then show "runs (snd (StopProcess_Exec e (Some ch) uid c m s)) =
        runs s @ [(c, path_Join [GetScriptPath ch, StopProcessBin],
                   serialize_stop_process (if IsDestroy c = None then ''--start'' else ''--stop'')
                     (Debug e) (flag m ''process'') (flag m ''process-cmd'')
                     (flag m ''ignore-not-found''))]"
    by (simp only: StopProcess_Exec_run [OF matcher] invoke_Run_runs)
next
  assume "IsCommandAvailable e ''echo'' \<and> IsCommandAvailable e ''kill'' \<and> IsDestroy c = None
       \<and> parse_positive (flag m ''count'') = Some n \<and> parse_positive (flag m ''interval'') = Some i
       \<and> IsExist e (flag m ''filepath'')"
  then have "FileAppend_Exec e (Some ch) uid c m s =
     start e ch (flag m ''filepath'') (flag m ''content'') n i
       (flag m ''escape'' = ''true'') (flag m ''enable-base64'' = ''true'') c s"
    using FileAppend_Exec_start [of e c m n i ch uid s] by simp
  then show "runs (snd (FileAppend_Exec e (Some ch) uid c m s)) =
        runs s @ [(c, path_Join [GetScriptPath ch, AppendFileBin],
                   serialize_file_append (Debug e) (flag m ''filepath'') (flag m ''content'') n i
                     (flag m ''escape'') (flag m ''enable-base64''))]"
    by (simp only: start_serialize invoke_Run_runs)
qed

theorem flags_serialized_in_order_witness:
  "\<not> (flag [''process-cmd'' \<mapsto> ''java'', ''ignore-not-found'' \<mapsto> ''true''] ''process'' = []
       \<and> flag [''process-cmd'' \<mapsto> ''java'', ''ignore-not-found'' \<mapsto> ''true''] ''process-cmd'' = [])
   \<and> runs (snd (StopProcess_Exec host_ok (Some echo_channel) ''uid'' destroy_ctx
                  [''process-cmd'' \<mapsto> ''java'', ''ignore-not-found'' \<mapsto> ''true''] fresh))
      = [(destroy_ctx, ''/opt/chaosblade/bin/chaos_stopprocess'',
          ''--stop --debug=false --process-cmd '' @ quoted ''java'' @ '' --ignore-not-found=true'')]
   \<and> IsCommandAvailable host_ok ''echo'' \<and> IsCommandAvailable host_ok ''kill''
   \<and> IsDestroy create_ctx = None
   \<and> parse_positive (flag [''filepath'' \<mapsto> ''/tmp/a.log'', ''interval'' \<mapsto> ''10'', ''escape'' \<mapsto> ''true''] ''count'') = Some 1
   \<and> parse_positive (flag [''filepath'' \<mapsto> ''/tmp/a.log'', ''interval'' \<mapsto> ''10'', ''escape'' \<mapsto> ''true''] ''interval'') = Some 10
   \<and> IsExist host_ok (flag [''filepath'' \<mapsto> ''/tmp/a.log'', ''interval'' \<mapsto> ''10'', ''escape'' \<mapsto> ''true''] ''filepath'')
   \<and> runs (snd (FileAppend_Exec host_ok (Some echo_channel) ''uid'' create_ctx
                  [''filepath'' \<mapsto> ''/tmp/a.log'', ''interval'' \<mapsto> ''10'', ''escape'' \<mapsto> ''true''] fresh))
      = [(create_ctx, ''/opt/chaosblade/bin/chaos_appendfile'',
          ''--start --filepath '' @ quoted ''/tmp/a.log'' @ '' --content '' @ quoted []
          @ '' --count 1 --interval 10 --debug=false --escape=true'')]"
proof -
  let ?m = "[''process-cmd'' \<mapsto> ''java'', ''ignore-not-found'' \<mapsto> ''true'']"
  let ?k = "[''filepath'' \<mapsto> ''/tmp/a.log'', ''interval'' \<mapsto> ''10'', ''escape'' \<mapsto> ''true'']"
  have f: "flag ?m ''process'' = []" "flag ?m ''process-cmd'' = ''java''"
    "flag ?m ''ignore-not-found'' = ''true''"
    by (simp_all add: flag_def)
  have g: "flag ?k ''filepath'' = ''/tmp/a.log''" "flag ?k ''content'' = []"
    "flag ?k ''escape'' = ''true''" "flag ?k ''enable-base64'' = []"
    by (simp_all add: flag_def)
  have matcher: "\<not> (flag ?m ''process'' = [] \<and> flag ?m ''process-cmd'' = [])"
    by (simp add: f)
  have d: "IsDestroy destroy_ctx \<noteq> None" "Debug host_ok = False" "runs fresh = []"
    by (simp_all add: IsDestroy_def destroy_ctx_def host_ok_def fresh_def)
  have a: "IsCommandAvailable host_ok ''echo''" and b: "IsCommandAvailable host_ok ''kill''"
    and c: "IsDestroy create_ctx = None"
    by (simp_all add: host_ok_def IsDestroy_def create_ctx_def)
  have n: "parse_positive (flag ?k ''count'') = Some 1"
    by (simp add: parse_positive_def flag_def)
  have i: "parse_positive (flag ?k ''interval'') = Some 10"
    by (simp add: parse_positive_def flag_def Atoi_def digit_val_def)
  have x: "IsExist host_ok (flag ?k ''filepath'')"
    by (simp add: g host_ok_def)
  have p: "path_Join [GetScriptPath echo_channel, StopProcessBin] = ''/opt/chaosblade/bin/chaos_stopprocess''"
    and q: "path_Join [GetScriptPath echo_channel, AppendFileBin] = ''/opt/chaosblade/bin/chaos_appendfile''"
    by (simp_all add: echo_channel_def path_Join_def Clean_def StopProcessBin_def AppendFileBin_def)
  have v: "serialize_stop_process ''--stop'' False [] ''java'' ''true''
           = ''--stop --debug=false --process-cmd '' @ quoted ''java'' @ '' --ignore-not-found=true''"
    by (simp add: serialize_stop_process_def stop_process_matcher_def stop_process_modifiers_def
        fmt_bool_def)
  have w: "serialize_file_append False ''/tmp/a.log'' [] 1 10 ''true'' []
           = ''--start --filepath '' @ quoted ''/tmp/a.log'' @ '' --content '' @ quoted []
             @ '' --count 1 --interval 10 --debug=false --escape=true''"
    by (simp add: serialize_file_append_def file_append_modifiers_def fmt_bool_def fmt_int_def
        fmt_nat.simps digit_char_def)
  from flags_serialized_in_order [of ?m host_ok echo_channel "''uid''" destroy_ctx fresh] matcher
  have r1: "runs (snd (StopProcess_Exec host_ok (Some echo_channel) ''uid'' destroy_ctx ?m fresh))
      = [(destroy_ctx, ''/opt/chaosblade/bin/chaos_stopprocess'',
          ''--stop --debug=false --process-cmd '' @ quoted ''java'' @ '' --ignore-not-found=true'')]"
    by (simp only: f d p v if_False append_Nil simp_thms)
  from flags_serialized_in_order [of ?k host_ok echo_channel "''uid''" create_ctx fresh 1 10] a b c n i x
  have r2: "runs (snd (FileAppend_Exec host_ok (Some echo_channel) ''uid'' create_ctx ?k fresh))
      = [(create_ctx, ''/opt/chaosblade/bin/chaos_appendfile'',
          ''--start --filepath '' @ quoted ''/tmp/a.log'' @ '' --content '' @ quoted []
          @ '' --count 1 --interval 10 --debug=false --escape=true'')]"
    by (simp only: g d q w append_Nil simp_thms)
  from matcher r1 a b c n i x r2 show ?thesis by blast
qed

subsection \<open>File-append on a file that does not exist\<close>

text \<open>
  Claim C9. A file-append request without a destroy marker, with a count and an interval
  that validate, for a path of the flag \<^verbatim>\<open>filepath\<close> at which the host has no file, never
  runs the channel: \<^verbatim>\<open>Exec\<close> hands the state back as it was. On the start path, that is
  when the request passed the command check and the channel check, the answer of \<^verbatim>\<open>Exec\<close>
  is IllegalParameters with a message that holds the path. With a destroy marker the
  host is not asked about the file: \<^verbatim>\<open>Exec\<close> does the same whatever \<^verbatim>\<open>IsExist\<close> answers.
\<close>

theorem file_append_missing_file:
  "(IsDestroy c = None
    \<and> \<not> not_positive_integer (flag m ''count'') \<and> \<not> not_positive_integer (flag m ''interval'')
    \<and> \<not> IsExist e (flag m ''filepath'') \<longrightarrow>
      snd (FileAppend_Exec e chan uid c m s) = s
      \<and> (IsCommandAvailable e ''echo'' \<and> IsCommandAvailable e ''kill'' \<longrightarrow>
           FileAppend_Exec e (Some ch) uid c m s
             = (ReturnFail IllegalParameters (''the '' @ flag m ''filepath'' @ '' file does not exist''), s)
           \<and> sublist (flag m ''filepath'') (Err (fst (FileAppend_Exec e (Some ch) uid c m s)))))
   \<and> (IsDestroy c \<noteq> None \<longrightarrow>
      FileAppend_Exec (e\<lparr>IsExist := exists\<rparr>) chan uid c m s = FileAppend_Exec e chan uid c m s)"
proof (intro conjI impI)
  assume a: "IsDestroy c = None
    \<and> \<not> not_positive_integer (flag m ''count'') \<and> \<not> not_positive_integer (flag m ''interval'')
    \<and> \<not> IsExist e (flag m ''filepath'')"
  then show "snd (FileAppend_Exec e chan uid c m s) = s"
    by (intro FileAppend_Exec_rejected) simp_all
  assume host: "IsCommandAvailable e ''echo'' \<and> IsCommandAvailable e ''kill''"
  from a obtain n i where "parse_positive (flag m ''count'') = Some n"
    and "parse_positive (flag m ''interval'') = Some i"
    using parse_positive_valid by blast
  with a host show r: "FileAppend_Exec e (Some ch) uid c m s
        = (ReturnFail IllegalParameters (''the '' @ flag m ''filepath'' @ '' file does not exist''), s)"
    by (simp add: FileAppend_Exec_def checkAppendFileExpEnv_def)
  show "sublist (flag m ''filepath'') (Err (fst (FileAppend_Exec e (Some ch) uid c m s)))"
  proof -
    have "Err (fst (FileAppend_Exec e (Some ch) uid c m s))
          = ''the '' @ flag m ''filepath'' @ '' file does not exist''"
      unfolding r by (simp add: ReturnFail_def)
    then show ?thesis
      by (simp only: sublist_appendI)
  qed
next
  assume "IsDestroy c \<noteq> None"
  then show "FileAppend_Exec (e\<lparr>IsExist := exists\<rparr>) chan uid c m s = FileAppend_Exec e chan uid c m s"
    by (auto simp: FileAppend_Exec_def checkAppendFileExpEnv_def stop_def split: option.splits)
qed

theorem file_append_missing_file_witness:
  "IsCommandAvailable host_ok ''echo'' \<and> IsCommandAvailable host_ok ''kill''
   \<and> IsDestroy create_ctx = None
   \<and> \<not> not_positive_integer (flag [''filepath'' \<mapsto> ''/tmp/b.log'', ''count'' \<mapsto> ''5''] ''count'')
   \<and> \<not> not_positive_integer (flag [''filepath'' \<mapsto> ''/tmp/b.log'', ''count'' \<mapsto> ''5''] ''interval'')
   \<and> \<not> IsExist host_ok (flag [''filepath'' \<mapsto> ''/tmp/b.log'', ''count'' \<mapsto> ''5''] ''filepath'')
   \<and> FileAppend_Exec host_ok (Some echo_channel) ''uid'' create_ctx
        [''filepath'' \<mapsto> ''/tmp/b.log'', ''count'' \<mapsto> ''5''] fresh
      = (ReturnFail IllegalParameters ''the /tmp/b.log file does not exist'', fresh)
   \<and> IsDestroy destroy_ctx \<noteq> None
   \<and> FileAppend_Exec (host_ok\<lparr>IsExist := \<lambda>p. False\<rparr>) (Some echo_channel) ''uid'' destroy_ctx
        [''filepath'' \<mapsto> ''/tmp/b.log'', ''count'' \<mapsto> ''5''] fresh
      = FileAppend_Exec host_ok (Some echo_channel) ''uid'' destroy_ctx
        [''filepath'' \<mapsto> ''/tmp/b.log'', ''count'' \<mapsto> ''5''] fresh"
proof -
  let ?m = "[''filepath'' \<mapsto> ''/tmp/b.log'', ''count'' \<mapsto> ''5'']"
  have f: "flag ?m ''filepath'' = ''/tmp/b.log''" "flag ?m ''count'' = ''5''" "flag ?m ''interval'' = []"
    by (simp_all add: flag_def)
  have a: "IsCommandAvailable host_ok ''echo''" "IsCommandAvailable host_ok ''kill''"
    "IsDestroy create_ctx = None" "IsDestroy destroy_ctx \<noteq> None"
    by (simp_all add: host_ok_def IsDestroy_def create_ctx_def destroy_ctx_def)
  have n: "\<not> not_positive_integer (flag ?m ''count'')" "\<not> not_positive_integer (flag ?m ''interval'')"
    by (simp_all add: f not_positive_integer_def Atoi_def digit_val_def)
  have x: "\<not> IsExist host_ok (flag ?m ''filepath'')"
    by (simp add: f host_ok_def)
  from file_append_missing_file [of create_ctx ?m host_ok "Some echo_channel" "''uid''" fresh echo_channel]
    a n x
  have r1: "FileAppend_Exec host_ok (Some echo_channel) ''uid'' create_ctx ?m fresh
      = (ReturnFail IllegalParameters ''the /tmp/b.log file does not exist'', fresh)"
    by (simp add: f)
  from file_append_missing_file [of destroy_ctx ?m host_ok "Some echo_channel" "''uid''" fresh
      echo_channel "\<lambda>p. False"] a
  have r2: "FileAppend_Exec (host_ok\<lparr>IsExist := \<lambda>p. False\<rparr>) (Some echo_channel) ''uid'' destroy_ctx ?m fresh
      = FileAppend_Exec host_ok (Some echo_channel) ''uid'' destroy_ctx ?m fresh"
    by blast
  from a n x r1 r2 show ?thesis by blast
qed

subsection \<open>A destroy request for file-append is not validated\<close>

text \<open>
  Claim C10, as amended. For a file-append request with a destroy marker, a channel
  bound and both commands on the host, \<^verbatim>\<open>Exec\<close> goes to \<^verbatim>\<open>stop\<close> with the value of
  \<^verbatim>\<open>filepath\<close> as it is and runs the channel once, whatever the flags \<^verbatim>\<open>content\<close>,
  \<^verbatim>\<open>count\<close> and \<^verbatim>\<open>interval\<close> hold and whether or not the file exists; the response is the
  one of the channel. A count that is no number and an empty file path reach the channel.
\<close>

theorem file_append_destroy_unvalidated:
  assumes "IsCommandAvailable e ''echo''" and "IsCommandAvailable e ''kill''"
    and "IsDestroy c = Some d"
  shows "FileAppend_Exec e (Some ch) uid c m s = stop e ch (flag m ''filepath'') c s
    \<and> runs (snd (FileAppend_Exec e (Some ch) uid c m s))
        = runs s @ [(c, path_Join [GetScriptPath ch, AppendFileBin],
                     ''--stop --filepath '' @ flag m ''filepath'' @ '' --debug='' @ fmt_bool (Debug e))]
    \<and> fst (FileAppend_Exec e (Some ch) uid c m s)
        = fst (Run ch c (path_Join [GetScriptPath ch, AppendFileBin])
                 (''--stop --filepath '' @ flag m ''filepath'' @ '' --debug='' @ fmt_bool (Debug e))
                 (world s))"
  unfolding FileAppend_Exec_stop [OF assms]
  by (simp add: stop_def invoke_Run_runs invoke_Run_fst)

theorem file_append_destroy_unvalidated_witness:
  "IsCommandAvailable host_ok ''echo'' \<and> IsCommandAvailable host_ok ''kill''
   \<and> IsDestroy destroy_ctx = Some ''7c1f7afc281482c8''
   \<and> not_positive_integer (flag [''count'' \<mapsto> ''abc''] ''count'')
   \<and> flag [''count'' \<mapsto> ''abc''] ''filepath'' = []
   \<and> runs (snd (FileAppend_Exec host_ok (Some echo_channel) ''uid'' destroy_ctx [''count'' \<mapsto> ''abc''] fresh))
      = [(destroy_ctx, ''/opt/chaosblade/bin/chaos_appendfile'', ''--stop --filepath  --debug=false'')]
   \<and> Code (fst (FileAppend_Exec host_ok (Some echo_channel) ''uid'' destroy_ctx [''count'' \<mapsto> ''abc''] fresh))
      = OK"
proof -
  let ?m = "[''count'' \<mapsto> ''abc'']"
  have a: "IsCommandAvailable host_ok ''echo''" and b: "IsCommandAvailable host_ok ''kill''"
    by (simp_all add: host_ok_def)
  have d: "IsDestroy destroy_ctx = Some ''7c1f7afc281482c8''"
    by (simp add: IsDestroy_def destroy_ctx_def)
  have f: "flag ?m ''filepath'' = []" "flag ?m ''count'' = ''abc''"
    by (simp_all add: flag_def)
  have n: "not_positive_integer (flag ?m ''count'')"
    by (simp add: f not_positive_integer_def Atoi_def digit_val_def)
  have p: "path_Join [GetScriptPath echo_channel, AppendFileBin] = ''/opt/chaosblade/bin/chaos_appendfile''"
    by (simp add: echo_channel_def path_Join_def Clean_def AppendFileBin_def)
  have v: "fmt_bool (Debug host_ok) = ''false''" "runs fresh = []"
    "Code (fst (Run echo_channel c q args w)) = OK" for c q args w
    by (simp_all add: fmt_bool_def host_ok_def fresh_def echo_channel_def)
  from file_append_destroy_unvalidated [OF a b d, of echo_channel "''uid''" ?m fresh]
  have "runs (snd (FileAppend_Exec host_ok (Some echo_channel) ''uid'' destroy_ctx ?m fresh))
      = [(destroy_ctx, ''/opt/chaosblade/bin/chaos_appendfile'', ''--stop --filepath  --debug=false'')]"
    and "Code (fst (FileAppend_Exec host_ok (Some echo_channel) ''uid'' destroy_ctx ?m fresh)) = OK"
    by (simp_all add: p f v stop_def invoke_Run_runs invoke_Run_fst)
  with a b d n f show ?thesis by blast
qed

text \<open>The claim as it is written fails on a host without \<^verbatim>\<open>kill\<close>: a destroy request
  with a channel bound is answered with CommandNotFound there and the channel is not
  run.\<close>

theorem file_append_destroy_counterexample:
  "IsDestroy destroy_ctx \<noteq> None
   \<and> FileAppend_Exec host_no_kill (Some echo_channel) ''uid'' destroy_ctx
       [''filepath'' \<mapsto> ''/tmp/a.log'', ''count'' \<mapsto> ''abc''] fresh
     = (ReturnFail CommandNotFound ''kill command not found'', fresh)
   \<and> runs (snd (FileAppend_Exec host_no_kill (Some echo_channel) ''uid'' destroy_ctx
       [''filepath'' \<mapsto> ''/tmp/a.log'', ''count'' \<mapsto> ''abc''] fresh)) = []"
  by (simp add: FileAppend_Exec_def checkAppendFileExpEnv_def host_no_kill_def IsDestroy_def
      destroy_ctx_def fresh_def)

end
